theory Spec2Isabelle
  imports Main "HOL-Library.AList" "HOL-Library.Sublist" "HOL-Library.Char_ord"
    "HOL-Library.List_Lexorder"
begin

section \<open>Python values and exceptions\<close>

text \<open>
  The values that \<^verbatim>\<open>json.load\<close> returns and \<^verbatim>\<open>json.dump\<close> accepts: \<^verbatim>\<open>None\<close>,
  booleans, numbers, strings, lists and dictionaries with string keys. The program never
  inspects a number, so its representation is the type parameter \<open>'n\<close>.

  A dictionary is an association list in insertion order, read through the first pair
  that carries a key (\<^const>\<open>map_of\<close>): \<^verbatim>\<open>d[k] = v\<close> is \<^const>\<open>AList.update\<close> (replace
  in place, or append), \<^verbatim>\<open>del d[k]\<close> is \<^const>\<open>AList.delete\<close>.
\<close>

datatype 'n json =
    JNull
  | JBool bool
  | JNum 'n
  | JStr string
  | JList "'n json list"
  | JDict "(string \<times> 'n json) list"

text \<open>The exceptions that the modelled code raises, catches or lets through.\<close>

datatype py_error =
    RuntimeError string
  | TypeError
  | KeyError
  | UnicodeDecodeError
  | UnicodeEncodeError
  | JSONDecodeError
  | RecursionError
  | OSError
  | FileNotFoundError
  | PermissionError
  | IsADirectoryError
  | ValueError string
  | IndexError
  | APIError string

text \<open>
  \<^verbatim>\<open>except (json.JSONDecodeError, IOError)\<close>: \<^verbatim>\<open>IOError\<close> is \<^verbatim>\<open>OSError\<close>, of which
  \<^verbatim>\<open>FileNotFoundError\<close>, \<^verbatim>\<open>PermissionError\<close> and \<^verbatim>\<open>IsADirectoryError\<close> are subclasses.
  \<^verbatim>\<open>UnicodeDecodeError\<close> is a \<^verbatim>\<open>ValueError\<close> beside \<^verbatim>\<open>JSONDecodeError\<close>, not below it;
  \<^verbatim>\<open>RecursionError\<close> is a \<^verbatim>\<open>RuntimeError\<close>.
\<close>

fun caught_by_load :: "py_error \<Rightarrow> bool" where
  "caught_by_load JSONDecodeError = True"
| "caught_by_load OSError = True"
| "caught_by_load FileNotFoundError = True"
| "caught_by_load PermissionError = True"
| "caught_by_load IsADirectoryError = True"
| "caught_by_load _ = False"

text \<open>\<^verbatim>\<open>d[k] = v\<close>: only a dictionary takes a string subscript.\<close>

fun setitem :: "'n json \<Rightarrow> string \<Rightarrow> 'n json \<Rightarrow> py_error + 'n json" where
  "setitem (JDict kvs) k v = Inr (JDict (AList.update k v kvs))"
| "setitem _ k v = Inl TypeError"

text \<open>
  \<^verbatim>\<open>k in d\<close> for a string \<open>k\<close>: key membership in a dictionary, element membership in a
  list, substring test in a string, \<^verbatim>\<open>TypeError\<close> on a value that is not a container.
\<close>

fun contains :: "'n json \<Rightarrow> string \<Rightarrow> py_error + bool" where
  "contains (JDict kvs) k = Inr (k \<in> fst ` set kvs)"
| "contains (JList xs) k = Inr (JStr k \<in> set xs)"
| "contains (JStr s) k = Inr (sublist k s)"
| "contains _ k = Inl TypeError"

text \<open>\<^verbatim>\<open>del d[k]\<close>, reached only after \<^verbatim>\<open>k in d\<close>.\<close>

fun delitem :: "'n json \<Rightarrow> string \<Rightarrow> py_error + 'n json" where
  "delitem (JDict kvs) k =
     (if k \<in> fst ` set kvs then Inr (JDict (AList.delete k kvs)) else Inl KeyError)"
| "delitem _ k = Inl TypeError"

text \<open>\<^verbatim>\<open>d[k]\<close> for a string \<open>k\<close>, as the callers of \<^verbatim>\<open>HistoryManager.load\<close> read a record.\<close>

fun getitem :: "'n json \<Rightarrow> string \<Rightarrow> py_error + 'n json" where
  "getitem (JDict kvs) k = (case map_of kvs k of None \<Rightarrow> Inl KeyError | Some v \<Rightarrow> Inr v)"
| "getitem _ k = Inl TypeError"

section \<open>The history file\<close>

text \<open>
  The permissions of the process on the file: what \<^verbatim>\<open>open(HISTORY_FILE, "r")\<close> and
  \<^verbatim>\<open>open(HISTORY_FILE, "w")\<close> are allowed.
\<close>

datatype access = ReadWrite | ReadOnly | WriteOnly | NoAccess

fun readable :: "access \<Rightarrow> bool" where
  "readable ReadWrite = True"
| "readable ReadOnly = True"
| "readable _ = False"

fun writable :: "access \<Rightarrow> bool" where
  "writable ReadWrite = True"
| "writable WriteOnly = True"
| "writable _ = False"

text \<open>
  What \<^verbatim>\<open>json.load\<close> makes of the bytes of a file:
  \<^item> \<open>Undecodable\<close>: bytes that are not text in the locale's encoding; the read raises
    \<^verbatim>\<open>UnicodeDecodeError\<close>;
  \<^item> \<open>Malformed\<close>: text that is not JSON; \<^verbatim>\<open>JSONDecodeError\<close>;
  \<^item> \<open>DeeplyNested\<close>: JSON nested beyond the recursion limit; \<^verbatim>\<open>RecursionError\<close>;
  \<^item> \<open>HugeInteger\<close>: JSON with an integer literal beyond the limit for integer string
    conversion; \<^verbatim>\<open>ValueError\<close>;
  \<^item> \<open>Parsed v\<close>: JSON that is parsed to the value \<open>v\<close>.
\<close>

datatype 'n file_content =
    Undecodable
  | Malformed
  | DeeplyNested
  | HugeInteger
  | Parsed "'n json"

fun json_load :: "'n file_content \<Rightarrow> py_error + 'n json" where
  "json_load Undecodable = Inl UnicodeDecodeError"
| "json_load Malformed = Inl JSONDecodeError"
| "json_load DeeplyNested = Inl RecursionError"
| "json_load HugeInteger = Inl (ValueError ''Exceeds the limit for integer string conversion'')"
| "json_load (Parsed v) = Inr v"

text \<open>
  What the program can observe of the path \<^verbatim>\<open>HISTORY_FILE\<close>:
  \<^item> \<open>Absent creatable\<close>: \<^verbatim>\<open>os.path.exists\<close> is false; \<open>creatable\<close> says whether the
    directory lets the process create the file;
  \<^item> \<open>Directory\<close>: the path is a directory;
  \<^item> \<open>File acc c\<close>: a file with the permissions \<open>acc\<close> and the content \<open>c\<close>.
\<close>

datatype 'n history_file =
    Absent bool
  | Directory
  | File access "'n file_content"

fun os_path_exists :: "'n history_file \<Rightarrow> bool" where
  "os_path_exists (Absent creatable) = False"
| "os_path_exists _ = True"

text \<open>\<^verbatim>\<open>with open(HISTORY_FILE, "r") as f: return json.load(f)\<close>\<close>

fun open_json_load :: "'n history_file \<Rightarrow> py_error + 'n json" where
  "open_json_load (Absent creatable) = Inl FileNotFoundError"
| "open_json_load Directory = Inl IsADirectoryError"
| "open_json_load (File acc c) = (if readable acc then json_load c else Inl PermissionError)"

text \<open>
  \<^verbatim>\<open>with open(HISTORY_FILE, "w") as f: json.dump(data, f)\<close>. When \<^verbatim>\<open>open\<close> is refused
  the file stays as it is. Otherwise the file is created or replaced and holds the text
  of \<open>data\<close>, which \<^verbatim>\<open>json.load\<close> parses back to \<open>data\<close>; a file that existed keeps its
  permissions.
\<close>

fun open_json_dump :: "'n json \<Rightarrow> 'n history_file \<Rightarrow> py_error + 'n history_file" where
  "open_json_dump data (Absent creatable) =
     (if creatable then Inr (File ReadWrite (Parsed data)) else Inl PermissionError)"
| "open_json_dump data Directory = Inl IsADirectoryError"
| "open_json_dump data (File acc c) =
     (if writable acc then Inr (File acc (Parsed data)) else Inl PermissionError)"

text \<open>Whether \<^verbatim>\<open>open(HISTORY_FILE, "w")\<close> is allowed.\<close>

fun can_write :: "'n history_file \<Rightarrow> bool" where
  "can_write (Absent creatable) = creatable"
| "can_write Directory = False"
| "can_write (File acc c) = writable acc"

section \<open>HistoryManager\<close>

definition load :: "'n history_file \<Rightarrow> py_error + 'n json" where
  "load fs =
     (if \<not> os_path_exists fs then Inr (JDict [])
      else case open_json_load fs of
             Inr v \<Rightarrow> Inr v
           | Inl e \<Rightarrow> if caught_by_load e then Inr (JDict []) else Inl e)"

text \<open>\<^verbatim>\<open>HistoryManager.load()[k]\<close>, as the history list reads a record.\<close>

definition load_item :: "'n history_file \<Rightarrow> string \<Rightarrow> py_error + 'n json" where
  "load_item fs k = (case load fs of Inl e \<Rightarrow> Inl e | Inr data \<Rightarrow> getitem data k)"

record message =
  m_role :: string
  m_text :: string

text \<open>The dictionary \<^verbatim>\<open>{"role": role, "text": text}\<close> that the message log holds.\<close>

definition message_dict :: "message \<Rightarrow> 'n json" where
  "message_dict m = JDict [(''role'', JStr (m_role m)), (''text'', JStr (m_text m))]"

text \<open>
  The record that \<^verbatim>\<open>save\<close> builds; \<open>now\<close> is \<^verbatim>\<open>datetime.datetime.now().isoformat()\<close>.
\<close>

definition entry :: "string \<Rightarrow> string list \<Rightarrow> message list \<Rightarrow> string \<Rightarrow> 'n json" where
  "entry title image_paths history_log now =
     JDict [(''title'', JStr title),
            (''images'', JList (map JStr image_paths)),
            (''messages'', JList (map message_dict history_log)),
            (''updated_at'', JStr now)]"

definition save ::
  "string \<Rightarrow> string \<Rightarrow> string list \<Rightarrow> message list \<Rightarrow> string \<Rightarrow> 'n history_file
     \<Rightarrow> py_error + 'n history_file" where
  "save chat_id title image_paths history_log now fs =
     (case load fs of
        Inl e \<Rightarrow> Inl e
      | Inr data \<Rightarrow>
          (case setitem data chat_id (entry title image_paths history_log now) of
             Inl e \<Rightarrow> Inl e
           | Inr data' \<Rightarrow> open_json_dump data' fs))"

definition delete_entry :: "string \<Rightarrow> 'n history_file \<Rightarrow> py_error + 'n history_file" where
  "delete_entry chat_id fs =
     (case load fs of
        Inl e \<Rightarrow> Inl e
      | Inr data \<Rightarrow>
          (case contains data chat_id of
             Inl e \<Rightarrow> Inl e
           | Inr False \<Rightarrow> Inr fs
           | Inr True \<Rightarrow>
               (case delitem data chat_id of
                  Inl e \<Rightarrow> Inl e
                | Inr data' \<Rightarrow> open_json_dump data' fs)))"

definition clear_all :: "'n history_file \<Rightarrow> py_error + 'n history_file" where
  "clear_all fs = (if os_path_exists fs then open_json_dump (JDict []) fs else Inr fs)"

text \<open>
  The states of the history file on which \<^verbatim>\<open>HistoryManager.load\<close> returns a dictionary
  and the file can be written and read again: no file yet in a directory that lets it be
  created, or a file that can be read and written and holds a text that is not JSON (read
  as the empty history) or a JSON object.
\<close>

fun holds_history :: "'n history_file \<Rightarrow> bool" where
  "holds_history (Absent creatable) = creatable"
| "holds_history (File ReadWrite Malformed) = True"
| "holds_history (File ReadWrite (Parsed (JDict kvs))) = True"
| "holds_history _ = False"

section \<open>GeminiClient\<close>

subsection \<open>Model selection\<close>

definition FALLBACK_MODEL :: string where
  "FALLBACK_MODEL = ''gemini-1.5-flash-latest''"

text \<open>
  \<^verbatim>\<open>str.lower\<close>. A string is its UTF-8 bytes; only the letters A to Z change, which is
  all that the test for \<^verbatim>\<open>'flash'\<close> can see.
\<close>

definition lower_char :: "char \<Rightarrow> char" where
  "lower_char c =
     (if CHR ''A'' \<le> c \<and> c \<le> CHR ''Z'' then char_of (of_char c + (32::nat)) else c)"

definition lower :: "string \<Rightarrow> string" where
  "lower s = map lower_char s"

text \<open>An element of \<^verbatim>\<open>genai.list_models()\<close>, with the two attributes that are read.\<close>

record model =
  name :: string
  supported_generation_methods :: "string list"

text \<open>The list comprehension of \<^verbatim>\<open>find_latest_flash_model\<close>.\<close>

definition flash_models_of :: "model list \<Rightarrow> string list" where
  "flash_models_of models =
     [name m. m \<leftarrow> models,
        ''generateContent'' \<in> set (supported_generation_methods m)
          \<and> sublist ''flash'' (lower (name m))]"

text \<open>
  \<^verbatim>\<open>sys.stdout\<close>, as far as the two \<^verbatim>\<open>print\<close> calls of the client can tell: both texts
  start with a symbol outside Latin-1 (U+26A0, U+2705). \<open>Unicode\<close> is a stream that
  encodes them (UTF-8); \<open>Narrow\<close> is a stream whose encoding lacks them (cp1252 or ASCII,
  as for a redirected stream under Windows), on which \<^verbatim>\<open>print\<close> raises
  \<^verbatim>\<open>UnicodeEncodeError\<close>.
\<close>

datatype stdout = Unicode | Narrow

fun print_symbol :: "stdout \<Rightarrow> py_error + unit" where
  "print_symbol Unicode = Inr ()"
| "print_symbol Narrow = Inl UnicodeEncodeError"

text \<open>
  \<open>probe\<close> is the outcome of \<^verbatim>\<open>list(genai.list_models())\<close>: an exception or the list.
  \<^verbatim>\<open>flash_models.sort(reverse=True)\<close> orders strings by code point, descending; an
  \<^verbatim>\<open>IndexError\<close> of \<^verbatim>\<open>flash_models[0]\<close> would be caught by \<^verbatim>\<open>except Exception\<close>.
  The handler prints its warning before it returns the fallback, and an exception of
  that \<^verbatim>\<open>print\<close> leaves the function.
\<close>

definition except_handler :: "stdout \<Rightarrow> py_error \<Rightarrow> py_error + string" where
  "except_handler out e =
     (case print_symbol out of
        Inl e' \<Rightarrow> Inl e'
      | Inr _ \<Rightarrow> Inr FALLBACK_MODEL)"

definition find_latest_flash_model :: "stdout \<Rightarrow> py_error + model list \<Rightarrow> py_error + string" where
  "find_latest_flash_model out probe =
     (case probe of
        Inl e \<Rightarrow> except_handler out e
      | Inr models \<Rightarrow>
          (let flash_models = flash_models_of models in
           if flash_models = [] then Inr FALLBACK_MODEL
           else case rev (sort flash_models) of
                  [] \<Rightarrow> except_handler out IndexError
                | m # _ \<Rightarrow> Inr m))"

subsection \<open>Chat sessions\<close>

text \<open>
  What is handed to \<^verbatim>\<open>ChatSession.send_message\<close>: a string, or a list of strings and
  images. \<open>'img\<close> is the type of an image object.
\<close>

datatype 'img part = TextPart string | ImagePart 'img

datatype 'img content = Str string | Parts "'img part list"

text \<open>
  A chat session is the sequence of its calls of \<^verbatim>\<open>send_message\<close>, each with what came
  back: the reply's text, or the exception that the call raised. The session's history,
  which the service answers from, is the turns that were answered.
\<close>

record 'img chat_session =
  exchanges :: "('img content \<times> (py_error + string)) list"

definition history :: "'img chat_session \<Rightarrow> ('img content \<times> string) list" where
  "history ch = [(c, r). (c, Inr r) \<leftarrow> exchanges ch]"

text \<open>The hosted model: from a session's history and the new content, a reply or an exception.\<close>

type_synonym 'img service = "('img content \<times> string) list \<Rightarrow> 'img content \<Rightarrow> py_error + string"

text \<open>\<^verbatim>\<open>self.model.start_chat(history=[])\<close>\<close>

definition start_chat :: "'img chat_session" where
  "start_chat = \<lparr>exchanges = []\<rparr>"

text \<open>\<^verbatim>\<open>chat.send_message(content)\<close>: the session after the call, and the call's outcome.\<close>

definition chat_send_message ::
  "'img service \<Rightarrow> 'img content \<Rightarrow> 'img chat_session
     \<Rightarrow> 'img chat_session \<times> (py_error + string)" where
  "chat_send_message svc c ch =
     (let r = svc (history ch) c
      in (ch\<lparr>exchanges := exchanges ch @ [(c, r)]\<rparr>, r))"

record 'img client =
  model_name :: string
  chat :: "'img chat_session option"

text \<open>
  \<^verbatim>\<open>GeminiClient.__init__\<close>; \<open>None\<close> is a missing API key. The name of the model is
  printed before the client is complete.
\<close>

definition init ::
  "stdout \<Rightarrow> string option \<Rightarrow> py_error + model list \<Rightarrow> py_error + 'img client" where
  "init out api_key probe =
     (if api_key = None \<or> api_key = Some []
      then Inl (ValueError ''No API Key provided.'')
      else case find_latest_flash_model out probe of
             Inl e \<Rightarrow> Inl e
           | Inr m \<Rightarrow>
               (case print_symbol out of
                  Inl e \<Rightarrow> Inl e
                | Inr _ \<Rightarrow> Inr \<lparr>model_name = m, chat = None\<rparr>))"

text \<open>Each method returns the client after the call and the call's outcome.\<close>

definition start_new_session ::
  "'img service \<Rightarrow> 'img list \<Rightarrow> string \<Rightarrow> 'img client
     \<Rightarrow> 'img client \<times> (py_error + string)" where
  "start_new_session svc images prompt_text c =
     (let (ch, r) = chat_send_message svc (Parts (TextPart prompt_text # map ImagePart images)) start_chat
      in (c\<lparr>chat := Some ch\<rparr>, r))"

definition send_message ::
  "'img service \<Rightarrow> string \<Rightarrow> 'img client \<Rightarrow> 'img client \<times> (py_error + string)" where
  "send_message svc txt c =
     (case chat c of
        None \<Rightarrow> (c, Inl (RuntimeError ''Chat session not initialized.''))
      | Some ch \<Rightarrow>
          (let (ch', r) = chat_send_message svc (Str txt) ch
           in (c\<lparr>chat := Some ch'\<rparr>, r)))"

text \<open>
  \<open>history_data\<close> is the stored message log of the conversation, or \<^verbatim>\<open>None\<close> as the one
  caller passes.
\<close>

definition resume_session ::
  "'img service \<Rightarrow> message list option \<Rightarrow> 'img list \<Rightarrow> 'img client
     \<Rightarrow> 'img client \<times> (py_error + unit)" where
  "resume_session svc history_data images c =
     (if images \<noteq> []
      then
        (let (ch, r) =
           chat_send_message svc
             (Parts (TextPart ''System: Context restoration.'' # map ImagePart images)) start_chat
         in (c\<lparr>chat := Some ch\<rparr>, case r of Inl e \<Rightarrow> Inl e | Inr _ \<Rightarrow> Inr ()))
      else (c\<lparr>chat := Some start_chat\<rparr>, Inr ()))"

subsection \<open>Sample inputs\<close>

text \<open>A service that is out of reach: every call raises.\<close>

definition unreachable :: "'img service" where
  "unreachable h c = Inl (APIError ''503 Service Unavailable'')"

text \<open>A service that answers every call with the same text.\<close>

definition answering :: "'img service" where
  "answering h c = Inr ''ok''"

text \<open>A listing with two usable flash models, one that cannot generate, and one other model.\<close>

definition sample_models :: "model list" where
  "sample_models =
     [\<lparr>name = ''models/gemini-1.5-flash'', supported_generation_methods = [''generateContent'']\<rparr>,
      \<lparr>name = ''models/gemini-2.0-Flash'',
        supported_generation_methods = [''generateContent'', ''countTokens'']\<rparr>,
      \<lparr>name = ''models/gemini-3.0-flash'', supported_generation_methods = [''embedContent'']\<rparr>,
      \<lparr>name = ''models/gemini-2.5-pro'', supported_generation_methods = [''generateContent'']\<rparr>]"

text \<open>
  A stored history with two conversations, in a file that can be read and written and
  in a file that can only be read; and a client with a session under way.
\<close>

definition sample_document :: "int json" where
  "sample_document =
     JDict [(''2024-01-01T10:00:00.000001'', entry ''A cat...'' [''/tmp/cat.png''] [] ''t1''),
            (''2024-02-02T11:00:00.000002'', entry ''A dog...'' [''/tmp/dog.png''] [] ''t2'')]"

definition sample_history :: "int history_file" where
  "sample_history = File ReadWrite (Parsed sample_document)"

definition read_only_history :: "int history_file" where
  "read_only_history = File ReadOnly (Parsed sample_document)"

definition sample_client :: "nat client" where
  "sample_client =
     \<lparr>model_name = FALLBACK_MODEL,
      chat = Some \<lparr>exchanges = [(Str ''What is shown?'', Inr ''A cat.'')]\<rparr>\<rparr>"

section \<open>Properties of the history store\<close>

lemma load_File_Parsed: "readable acc \<Longrightarrow> load (File acc (Parsed v)) = Inr v"
  by (simp add: load_def)

lemma load_empty_history:
  "load (Absent creatable) = Inr (JDict [])"
  "load Directory = Inr (JDict [])"
  "\<not> readable acc \<Longrightarrow> load (File acc c) = Inr (JDict [])"
  "load (File acc Malformed) = Inr (JDict [])"
  by (simp_all add: load_def)



text \<open>A document with an entry is read from a readable file that holds it.\<close>

lemma load_nonempty:
  assumes "load fs = Inr (JDict kvs)" and "kvs \<noteq> []"
  shows "\<exists>acc. readable acc \<and> fs = File acc (Parsed (JDict kvs))"
proof (cases fs)
  case (File acc c)
  with assms show ?thesis
    by (cases c) (auto simp: load_def split: if_splits)
qed (use assms in \<open>simp_all add: load_def\<close>)



lemma can_write_iff: "can_write fs \<longleftrightarrow> (\<exists>fs'. open_json_dump data fs = Inr fs')"
  by (cases fs) simp_all

text \<open>\<^verbatim>\<open>save\<close> returns exactly when \<^verbatim>\<open>load\<close> returns a dictionary and the file can be written.\<close>

lemma save_returns_iff:
  "(\<exists>fs'. save chat_id title image_paths history_log now fs = Inr fs')
     \<longleftrightarrow> (\<exists>kvs. load fs = Inr (JDict kvs)) \<and> can_write fs"
proof (cases "load fs")
  case (Inl e)
  then show ?thesis by (simp add: save_def)
next
  case (Inr data)
  then show ?thesis
    by (cases data) (simp_all add: save_def can_write_iff [symmetric])
qed


text \<open>Outside \<^const>\<open>holds_history\<close> no call of \<^verbatim>\<open>save\<close> is followed by a \<^verbatim>\<open>load\<close> that has the entry.\<close>

lemma save_then_load_item_only_on_history:
  assumes "save chat_id title image_paths history_log now fs = Inr fs'"
    and "load_item fs' chat_id = Inr e"
  shows "holds_history fs"
proof (cases fs)
  case (Absent creatable)
  with assms(1) show ?thesis
    by (cases creatable) (simp_all add: save_def load_def)
next
  case Directory
  with assms(1) show ?thesis by (simp add: save_def load_def)
next
  case (File acc c)
  show ?thesis
  proof (cases acc)
    case ReadWrite
    with File assms(1) show ?thesis
    proof (cases c)
      case (Parsed v)
      with File ReadWrite assms(1) show ?thesis
        by (cases v) (simp_all add: save_def load_def)
    qed (simp_all add: save_def load_def)
  next
    case ReadOnly
    with File assms(1) show ?thesis
      by (cases c) (auto simp: save_def load_def split: sum.splits json.splits)
  next
    case WriteOnly
    with File assms(1) have "fs' = File WriteOnly (Parsed (JDict [(chat_id, entry title image_paths history_log now)]))"
      by (auto simp: save_def load_def)
    with assms(2) show ?thesis
      by (simp add: load_item_def load_def)
  next
    case NoAccess
    with File assms(1) show ?thesis by (simp add: save_def load_def)
  qed
qed









text \<open>When the file cannot be written, deleting an entry raises and the file stays.\<close>

lemma delete_entry_present_key_unwritable:
  assumes "load_item fs chat_id = Inr v" and "\<not> can_write fs"
  shows "delete_entry chat_id fs = Inl PermissionError"
proof -
  from assms(1) obtain data where l: "load fs = Inr data" and g: "getitem data chat_id = Inr v"
    by (auto simp: load_item_def split: sum.splits)
  from g obtain kvs where d: "data = JDict kvs" by (cases data) simp_all
  with g have "map_of kvs chat_id = Some v" by (simp split: option.splits)
  then have mem: "chat_id \<in> fst ` set kvs" by (metis map_of_eq_None_iff option.distinct(1))
  then have "kvs \<noteq> []" by auto
  with l d obtain acc where r: "readable acc" and fs: "fs = File acc (Parsed (JDict kvs))"
    using load_nonempty by blast
  from fs assms(2) have "\<not> writable acc" by simp
  with fs mem r show ?thesis by (simp add: delete_entry_def load_File_Parsed)
qed




text \<open>
  C8, as stated, fails: on a stored document in a file that can only be read,
  \<^verbatim>\<open>clear_all\<close> raises and \<^verbatim>\<open>load\<close> still returns the document with its records.
\<close>

theorem clear_all_raises_on_read_only:
  "clear_all read_only_history = Inl PermissionError
   \<and> load read_only_history = Inr sample_document
   \<and> sample_document \<noteq> JDict []"
  by (simp add: clear_all_def load_def read_only_history_def sample_document_def)

text \<open>
  C8, amended. For every stored history document in a file that can be written, and on
  every path that does not exist or can be opened for writing, \<^verbatim>\<open>clear_all\<close> returns and
  \<^verbatim>\<open>load\<close> then returns the empty dictionary.
\<close>

theorem clear_all_then_load:
  assumes "\<not> os_path_exists fs \<or> can_write fs"
  shows "\<exists>fs'. clear_all fs = Inr fs' \<and> load fs' = Inr (JDict [])"
proof (cases fs)
  case (Absent creatable)
  then show ?thesis by (simp add: clear_all_def load_def)
next
  case Directory
  with assms show ?thesis by simp
next
  case (File acc c)
  with assms have "writable acc" by simp
  with File show ?thesis by (simp add: clear_all_def load_def)
qed

theorem clear_all_then_load_witness:
  "can_write sample_history
   \<and> load sample_history = Inr sample_document
   \<and> (\<exists>fs'. clear_all sample_history = Inr fs' \<and> load fs' = Inr (JDict []))"
proof -
  have w: "can_write sample_history"
    by (simp add: sample_history_def)
  then have h: "\<not> os_path_exists sample_history \<or> can_write sample_history" ..
  have l: "load sample_history = Inr sample_document"
    by (simp add: sample_history_def load_File_Parsed)
  from clear_all_then_load [OF h] w l show ?thesis by blast
qed

text \<open>
  C10. When the history file does not exist, \<^verbatim>\<open>clear_all\<close> returns with the file system
  as it was: no file is created, and the path still does not exist.
\<close>

theorem clear_all_absent:
  assumes "\<not> os_path_exists fs"
  shows "\<exists>fs'. clear_all fs = Inr fs' \<and> fs' = fs \<and> \<not> os_path_exists fs'"
  using assms by (simp add: clear_all_def)

theorem clear_all_absent_witness:
  "\<not> os_path_exists (Absent True :: int history_file)
   \<and> clear_all (Absent True :: int history_file) = Inr (Absent True)"
proof -
  have h: "\<not> os_path_exists (Absent True :: int history_file)" by simp
  from clear_all_absent [OF h] h show ?thesis by simp
qed

text \<open>
  C2. \<^verbatim>\<open>load\<close> on a history file whose bytes are not text in the locale's encoding:
  the \<^verbatim>\<open>UnicodeDecodeError\<close> of the read is none of the exceptions that \<^verbatim>\<open>load\<close>
  catches, and \<^verbatim>\<open>load\<close> raises it.
\<close>

theorem load_raises_on_undecodable:
  "load (File ReadWrite Undecodable) = Inl UnicodeDecodeError"
  by (simp add: load_def)

section \<open>Properties of the model selection\<close>

lemma set_flash_models_of:
  "set (flash_models_of models) =
     {name m | m. m \<in> set models
        \<and> ''generateContent'' \<in> set (supported_generation_methods m)
        \<and> sublist ''flash'' (lower (name m))}"
  by (auto simp: flash_models_of_def)

lemma sorted_le_last:
  fixes ys :: "'a::linorder list"
  shows "sorted ys \<Longrightarrow> y \<in> set ys \<Longrightarrow> y \<le> last ys"
  by (induction ys) auto

text \<open>A list sorted in descending order starts with its greatest element.\<close>

lemma rev_sort_Max:
  fixes xs :: "'a::linorder list"
  assumes "xs \<noteq> []"
  shows "\<exists>zs. rev (sort xs) = Max (set xs) # zs"
proof -
  let ?ys = "sort xs"
  have ne: "?ys \<noteq> []"
    using assms by (metis length_0_conv length_sort)
  have "last ?ys \<in> set xs"
    using ne last_in_set [of ?ys] by simp
  moreover have "\<And>y. y \<in> set xs \<Longrightarrow> y \<le> last ?ys"
    using sorted_le_last [of ?ys] by simp
  ultimately have "Max (set xs) = last ?ys"
    by (intro Max_eqI) auto
  moreover have "?ys = butlast ?ys @ [last ?ys]"
    using ne by simp
  then have "rev ?ys = rev (butlast ?ys @ [last ?ys])"
    by (rule arg_cong)
  then have "rev ?ys = last ?ys # rev (butlast ?ys)"
    by (simp only: rev_append rev.simps append_Cons append_Nil)
  ultimately have "rev ?ys = Max (set xs) # rev (butlast ?ys)"
    by (simp only:)
  then show ?thesis by (rule exI)
qed

lemma find_latest_flash_model_Max:
  assumes "flash_models_of models \<noteq> []"
  shows "find_latest_flash_model out (Inr models) = Inr (Max (set (flash_models_of models)))"
proof -
  from rev_sort_Max [OF assms] obtain zs
    where "rev (sort (flash_models_of models)) = Max (set (flash_models_of models)) # zs" ..
  with assms show ?thesis by (simp add: find_latest_flash_model_def)
qed

text \<open>
  What the selection does on every standard output when the probe returns, and on a
  standard output that encodes the warning when the probe raises. Call matching the
  names of the listed models that support \<^verbatim>\<open>generateContent\<close> and contain \<^verbatim>\<open>flash\<close> once
  lowered. When nothing matches the fallback identifier is returned; otherwise a matching
  name that no matching name exceeds in the order of strings, which contains \<^verbatim>\<open>flash\<close>
  once lowered.
\<close>

lemma find_latest_flash_model_selects:
  "let matching = {name m | m. m \<in> set models
         \<and> ''generateContent'' \<in> set (supported_generation_methods m)
         \<and> sublist ''flash'' (lower (name m))}
   in find_latest_flash_model Unicode (Inl e) = Inr FALLBACK_MODEL
    \<and> (matching = {} \<longrightarrow> find_latest_flash_model out (Inr models) = Inr FALLBACK_MODEL)
    \<and> (matching \<noteq> {} \<longrightarrow>
          (\<exists>chosen. find_latest_flash_model out (Inr models) = Inr chosen
             \<and> chosen \<in> matching
             \<and> (\<forall>n \<in> matching. n \<le> chosen)
             \<and> sublist ''flash'' (lower chosen)))"
proof -
  define matching where "matching = {name m | m. m \<in> set models
         \<and> ''generateContent'' \<in> set (supported_generation_methods m)
         \<and> sublist ''flash'' (lower (name m))}"
  have m: "matching = set (flash_models_of models)"
    by (simp add: matching_def set_flash_models_of)
  have raised: "find_latest_flash_model Unicode (Inl e) = Inr FALLBACK_MODEL"
    by (simp add: find_latest_flash_model_def except_handler_def)
  have none: "find_latest_flash_model out (Inr models) = Inr FALLBACK_MODEL" if "matching = {}"
    using that m by (simp add: find_latest_flash_model_def)
  have some: "\<exists>chosen. find_latest_flash_model out (Inr models) = Inr chosen
         \<and> chosen \<in> matching
         \<and> (\<forall>n \<in> matching. n \<le> chosen)
         \<and> sublist ''flash'' (lower chosen)"
    if "matching \<noteq> {}"
  proof -
    from that m have ne: "flash_models_of models \<noteq> []" by auto
    have r: "find_latest_flash_model out (Inr models) = Inr (Max matching)"
      using find_latest_flash_model_Max [OF ne] m by simp
    have fin: "finite matching" using m by simp
    have top: "Max matching \<in> matching" using fin that by (rule Max_in)
    moreover have "\<forall>n \<in> matching. n \<le> Max matching" using fin by simp
    moreover have "sublist ''flash'' (lower (Max matching))"
      using top unfolding matching_def by auto
    ultimately show ?thesis using r by blast
  qed
  from raised none some show ?thesis
    unfolding Let_def matching_def by blast
qed

lemma find_latest_flash_model_sample:
  "find_latest_flash_model out (Inr sample_models) = Inr ''models/gemini-2.0-Flash''"
proof -
  have "flash_models_of sample_models = [''models/gemini-1.5-flash'', ''models/gemini-2.0-Flash'']"
    by code_simp
  moreover have "rev (sort [''models/gemini-1.5-flash'', ''models/gemini-2.0-Flash''])
                   = [''models/gemini-2.0-Flash'', ''models/gemini-1.5-flash'']"
    by code_simp
  ultimately show ?thesis by (simp add: find_latest_flash_model_def)
qed

text \<open>
  C5. The probe raises while the standard output cannot encode the warning of the
  handler: \<^verbatim>\<open>find_latest_flash_model\<close> raises \<^verbatim>\<open>UnicodeEncodeError\<close> and returns no model
  identifier.
\<close>

theorem find_latest_flash_model_raises_on_narrow_stdout:
  "find_latest_flash_model Narrow (Inl (APIError ''503 Service Unavailable''))
     = Inl UnicodeEncodeError"
  by (simp add: find_latest_flash_model_def except_handler_def)

section \<open>Properties of the client\<close>

lemma history_start_chat: "history start_chat = []"
  by (simp add: history_def start_chat_def)

text \<open>
  C6. Whatever session the client held and whatever message log is passed, with a
  non-empty image list \<^verbatim>\<open>resume_session\<close> leaves the client with a new session whose
  only call of \<^verbatim>\<open>send_message\<close> carried the fixed marker text followed by the images,
  answered from an empty history. Nothing of the message log or of the earlier session
  enters the outcome: it is the outcome on no log and no earlier session.
\<close>

theorem resume_session_replays_images:
  assumes "images \<noteq> []"
  shows "let context = Parts (TextPart ''System: Context restoration.'' # map ImagePart images);
             c' = fst (resume_session svc history_data images c)
         in chat c' = Some \<lparr>exchanges = [(context, svc [] context)]\<rparr>
          \<and> model_name c' = model_name c
          \<and> resume_session svc history_data images c
              = resume_session svc None images (c\<lparr>chat := None\<rparr>)"
  using assms
  by (simp add: resume_session_def chat_send_message_def history_start_chat Let_def)
     (simp add: start_chat_def)

theorem resume_session_replays_images_witness:
  "[3, 5 :: nat] \<noteq> []
   \<and> chat (fst (resume_session answering
              (Some [\<lparr>m_role = ''user'', m_text = ''What is shown?''\<rparr>,
                     \<lparr>m_role = ''model'', m_text = ''A cat.''\<rparr>])
              [3, 5] sample_client))
     = Some \<lparr>exchanges =
         [(Parts [TextPart ''System: Context restoration.'', ImagePart 3, ImagePart 5],
           Inr ''ok'')]\<rparr>"
proof -
  have ne: "[3, 5 :: nat] \<noteq> []" by simp
  from resume_session_replays_images [OF ne, of answering
      "Some [\<lparr>m_role = ''user'', m_text = ''What is shown?''\<rparr>,
             \<lparr>m_role = ''model'', m_text = ''A cat.''\<rparr>]"
      sample_client, unfolded Let_def, THEN conjunct1]
  show ?thesis by (simp add: answering_def)
qed

text \<open>
  C9. Whatever session the client held, \<^verbatim>\<open>resume_session\<close> with an empty image list
  leaves the client with a new session on which \<^verbatim>\<open>send_message\<close> was never called, and
  returns; the service is not consulted.
\<close>

theorem resume_session_without_images:
  "resume_session svc history_data [] c = (c\<lparr>chat := Some \<lparr>exchanges = []\<rparr>\<rparr>, Inr ())"
  by (simp add: resume_session_def start_chat_def)

text \<open>
  C7, as stated, fails: with a session started and the service out of reach,
  \<^verbatim>\<open>send_message\<close> raises although the chat handle is set.
\<close>

theorem send_message_raises_with_session:
  "\<not> (isl (snd (send_message unreachable ''hello'' sample_client))
        \<longleftrightarrow> chat sample_client = None)"
  by (simp add: send_message_def chat_send_message_def unreachable_def sample_client_def Let_def)

text \<open>
  C7, amended. When no session has been started, \<^verbatim>\<open>send_message\<close> raises
  \<^verbatim>\<open>RuntimeError\<close> and leaves the client as it is. When a session exists, the text is
  sent on that session and the outcome of \<^verbatim>\<open>send_message\<close> is the outcome of that call:
  the model's reply, or the exception of the call. So \<^verbatim>\<open>send_message\<close> raises exactly
  when no session has been started or the session's call raises.
\<close>

theorem send_message_spec:
  "(chat c = None \<longrightarrow>
      send_message svc txt c = (c, Inl (RuntimeError ''Chat session not initialized.'')))
   \<and> (\<forall>ch. chat c = Some ch \<longrightarrow>
        snd (send_message svc txt c) = svc (history ch) (Str txt)
      \<and> chat (fst (send_message svc txt c))
          = Some (ch\<lparr>exchanges := exchanges ch @ [(Str txt, svc (history ch) (Str txt))]\<rparr>))
   \<and> (isl (snd (send_message svc txt c)) \<longleftrightarrow>
        chat c = None \<or> (\<exists>ch. chat c = Some ch \<and> isl (svc (history ch) (Str txt))))"
  by (cases "chat c") (simp_all add: send_message_def chat_send_message_def Let_def)

theorem send_message_spec_witness:
  "chat (\<lparr>model_name = FALLBACK_MODEL, chat = None\<rparr> :: nat client) = None
   \<and> snd (send_message answering ''hello'' (\<lparr>model_name = FALLBACK_MODEL, chat = None\<rparr> :: nat client))
       = Inl (RuntimeError ''Chat session not initialized.'')
   \<and> chat sample_client = Some \<lparr>exchanges = [(Str ''What is shown?'', Inr ''A cat.'')]\<rparr>
   \<and> snd (send_message answering ''hello'' sample_client) = Inr ''ok''"
proof -
  have n: "chat (\<lparr>model_name = FALLBACK_MODEL, chat = None\<rparr> :: nat client) = None"
    by simp
  have y: "chat sample_client = Some \<lparr>exchanges = [(Str ''What is shown?'', Inr ''A cat.'')]\<rparr>"
    by (simp add: sample_client_def)
  from send_message_spec [of "\<lparr>model_name = FALLBACK_MODEL, chat = None\<rparr> :: nat client" answering "''hello''"] n
  have 1: "snd (send_message answering ''hello'' (\<lparr>model_name = FALLBACK_MODEL, chat = None\<rparr> :: nat client))
             = Inl (RuntimeError ''Chat session not initialized.'')"
    by simp
  from send_message_spec [of sample_client answering "''hello''"] y
  have 2: "snd (send_message answering ''hello'' sample_client) = Inr ''ok''"
    by (simp add: answering_def)
  from n y 1 2 show ?thesis by blast
qed

end
